theory Spec2Isabelle
  imports Main "HOL-Library.Sublist"
begin

section \<open>Python values and dictionaries\<close>

text \<open>
  The engine of \<^verbatim>\<open>app.py\<close> works on data parsed from JSON: dictionaries whose fields
  are read with \<^verbatim>\<open>.get\<close>. The fields the engine reads are scalars, so a field value is
  \<^verbatim>\<open>None\<close>, a boolean, an integer or a string. Floating point numbers are left out of
  the model. Strings are lists of characters, read as ASCII text.
\<close>

datatype pyval = PNone | PBool bool | PInt int | PStr string

text \<open>The exceptions the modelled code can raise.\<close>

datatype py_error = TypeError | AttributeError | ValueError

text \<open>
  A dictionary is an association list from keys to values; the first binding of a key is
  the one the dictionary holds. A data file is a dictionary whose entries are lists of
  dictionaries (\<^verbatim>\<open>{"desks": [...]}\<close>, \<^verbatim>\<open>{"spaces": [...]}\<close>, \<^verbatim>\<open>{"policies": [...]}\<close>).
\<close>

type_synonym pydict = "(string \<times> pyval) list"
type_synonym pydoc = "(string \<times> pydict list) list"

text \<open>\<^verbatim>\<open>d.get(k, default)\<close> for a string key.\<close>

definition dict_get :: "(string \<times> 'a) list \<Rightarrow> string \<Rightarrow> 'a \<Rightarrow> 'a" where
  "dict_get d k dflt = (case map_of d k of None \<Rightarrow> dflt | Some v \<Rightarrow> v)"

text \<open>\<^verbatim>\<open>d.get(k)\<close>: the default is \<^verbatim>\<open>None\<close>.\<close>

definition py_get :: "pydict \<Rightarrow> string \<Rightarrow> pyval" where
  "py_get d k = dict_get d k PNone"

text \<open>
  \<^verbatim>\<open>d.get(key, default)\<close> where the key is itself a value read from the data. The keys of
  a dictionary parsed from JSON are strings, so only a string key can be found; the other
  scalars are hashable and give the default.
\<close>

fun dict_get_val :: "(string \<times> 'a) list \<Rightarrow> pyval \<Rightarrow> 'a \<Rightarrow> 'a" where
  "dict_get_val d (PStr k) dflt = dict_get d k dflt"
| "dict_get_val d _ dflt = dflt"

text \<open>Truth value of a scalar (\<^verbatim>\<open>if x:\<close>).\<close>

fun truthy :: "pyval \<Rightarrow> bool" where
  "truthy PNone = False"
| "truthy (PBool b) = b"
| "truthy (PInt i) = (i \<noteq> 0)"
| "truthy (PStr s) = (s \<noteq> [])"

text \<open>
  \<^verbatim>\<open>==\<close> on scalars: booleans are the integers 0 and 1, values of different kinds are
  unequal.
\<close>

fun py_num :: "pyval \<Rightarrow> int option" where
  "py_num (PBool b) = Some (if b then 1 else 0)"
| "py_num (PInt i) = Some i"
| "py_num _ = None"

definition py_eq :: "pyval \<Rightarrow> pyval \<Rightarrow> bool" where
  "py_eq a b =
     (case (py_num a, py_num b) of
        (Some x, Some y) \<Rightarrow> x = y
      | (None, None) \<Rightarrow> a = b
      | _ \<Rightarrow> False)"

text \<open>Decimal rendering of a number, as \<^verbatim>\<open>str\<close> and f-strings print it.\<close>

function show_nat :: "nat \<Rightarrow> string" where
  "show_nat n =
     (if n < 10 then [''0123456789'' ! n]
      else show_nat (n div 10) @ [''0123456789'' ! (n mod 10)])"
  by pat_completeness auto
termination
  by (relation "measure id") auto

declare show_nat.simps [simp del]

definition show_int :: "int \<Rightarrow> string" where
  "show_int i = (if i < 0 then CHR ''-'' # show_nat (nat (- i)) else show_nat (nat i))"

text \<open>\<^verbatim>\<open>str(x)\<close>, also what \<^verbatim>\<open>{x}\<close> inserts in an f-string.\<close>

fun py_str :: "pyval \<Rightarrow> string" where
  "py_str PNone = ''None''"
| "py_str (PBool b) = (if b then ''True'' else ''False'')"
| "py_str (PInt i) = show_int i"
| "py_str (PStr s) = s"

text \<open>
  \<^verbatim>\<open>needle in x\<close> for a string needle: substring test on a string, \<^verbatim>\<open>TypeError\<close> on a
  scalar that is not iterable.
\<close>

fun py_in_str :: "string \<Rightarrow> pyval \<Rightarrow> py_error + bool" where
  "py_in_str needle (PStr s) = Inr (sublist needle s)"
| "py_in_str needle _ = Inl TypeError"

text \<open>\<^verbatim>\<open>x >= t\<close> for an integer \<open>t\<close>: numeric on numbers, \<^verbatim>\<open>TypeError\<close> otherwise.\<close>

fun py_ge :: "pyval \<Rightarrow> int \<Rightarrow> py_error + bool" where
  "py_ge (PInt i) t = Inr (t \<le> i)"
| "py_ge (PBool b) t = Inr (t \<le> (if b then 1 else 0))"
| "py_ge _ t = Inl TypeError"

section \<open>Availability evaluator: \<^verbatim>\<open>check_desk_availability\<close>\<close>

text \<open>
  The occupancy data is a dictionary of dictionaries:
  \<^verbatim>\<open>occupancy_data["forecast"][area_id]["next_day"]["afternoon"]\<close>.
\<close>

type_synonym occupancy = "(string \<times> (string \<times> (string \<times> pydict) list) list) list"

text \<open>
  Lines 181 to 184: the capacity policy is the first policy whose id is \<^verbatim>\<open>POL-005\<close>; the
  threshold is 80, and is set to 80 again when the policy is a non-empty dictionary whose
  description contains \<^verbatim>\<open>80%\<close>.
\<close>

definition capacity_threshold :: "pydoc \<Rightarrow> py_error + int" where
  "capacity_threshold policies =
     (let capacity_policy =
            find (\<lambda>p. py_eq (py_get p ''id'') (PStr ''POL-005'')) (dict_get policies ''policies'' []);
          threshold = 80
      in case capacity_policy of
           None \<Rightarrow> Inr threshold
         | Some p \<Rightarrow>
             if p = [] then Inr threshold
             else (case py_in_str ''80%'' (dict_get p ''description'' (PStr [])) of
                     Inl e \<Rightarrow> Inl e
                   | Inr hit \<Rightarrow> Inr (if hit then 80 else threshold)))"

definition check_desk_availability ::
  "pydict \<Rightarrow> string \<Rightarrow> occupancy \<Rightarrow> pydoc \<Rightarrow> py_error + (bool \<times> string)" where
  "check_desk_availability desk time_request occupancy_data policies =
     (if py_eq (py_get desk ''status'') (PStr ''maintenance'') then
        Inr (False, ''Desk is under maintenance.'')
      else if time_request = ''tomorrow afternoon'' then
        (let area_id = py_get desk ''vergesense_area_id'';
             forecast_data =
               dict_get (dict_get_val (dict_get occupancy_data ''forecast'' []) area_id [])
                 ''next_day'' [];
             forecast = py_get forecast_data ''afternoon''
         in if forecast = PNone then
              Inr (False, ''No 'afternoon' forecast data available for Area '' @ py_str area_id
                          @ '' tomorrow.'')
            else
              (case capacity_threshold policies of
                 Inl e \<Rightarrow> Inl e
               | Inr threshold \<Rightarrow>
                   (case py_ge forecast threshold of
                      Inl e \<Rightarrow> Inl e
                    | Inr True \<Rightarrow>
                        Inr (False, ''Area '' @ py_str area_id @ '' forecasted occupancy (''
                                    @ py_str forecast @ ''%) meets/exceeds threshold (''
                                    @ show_int threshold @ ''%) for tomorrow afternoon.'')
                    | Inr False \<Rightarrow>
                        Inr (True, ''Area '' @ py_str area_id @ '' forecast ('' @ py_str forecast
                                   @ ''%) is below threshold ('' @ show_int threshold
                                   @ ''%) for tomorrow afternoon. Desk *may* be available.''))))
      else if time_request = ''now'' then
        (if py_eq (py_get desk ''status'') (PStr ''available'') then
           Inr (True, ''Desk is currently available.'')
         else
           Inr (False, ''Desk status is currently '' @ [CHR 0x27] @ py_str (py_get desk ''status'')
                       @ [CHR 0x27] @ ''.''))
      else
        Inr (False, ''Availability check for '' @ [CHR 0x27] @ time_request @ [CHR 0x27]
                    @ '' not implemented.''))"

text \<open>
  The forecast lookup of lines 172 and 173, as a function of the occupancy data and the
  desk's \<^verbatim>\<open>vergesense_area_id\<close>. A level that is missing gives the empty dictionary, so
  the result is \<^verbatim>\<open>None\<close> when the area, its \<^verbatim>\<open>next_day\<close> entry or the \<^verbatim>\<open>afternoon\<close> entry
  is absent.
\<close>

definition forecast_lookup :: "occupancy \<Rightarrow> pyval \<Rightarrow> pyval" where
  "forecast_lookup occupancy_data area_id =
     py_get (dict_get (dict_get_val (dict_get occupancy_data ''forecast'' []) area_id [])
               ''next_day'' [])
       ''afternoon''"

text \<open>
  A policy as the data model describes it: its description, when present, is a string.
\<close>

definition policy_wf :: "pydict \<Rightarrow> bool" where
  "policy_wf p =
     (case map_of p ''description'' of None \<Rightarrow> True | Some (PStr s) \<Rightarrow> True | Some _ \<Rightarrow> False)"

definition policies_wf :: "pydoc \<Rightarrow> bool" where
  "policies_wf policies = list_all policy_wf (dict_get policies ''policies'' [])"

text \<open>
  The afternoon entry itself, when every level of the forecast holds it: the statement
  "the forecast has an afternoon entry for this area" of the specification.
\<close>

definition afternoon_entry :: "occupancy \<Rightarrow> pyval \<Rightarrow> pyval option" where
  "afternoon_entry occupancy_data area_id =
     (case area_id of
        PStr a \<Rightarrow>
          Option.bind (map_of occupancy_data ''forecast'') (\<lambda>f.
          Option.bind (map_of f a) (\<lambda>e.
          Option.bind (map_of e ''next_day'') (\<lambda>nd. map_of nd ''afternoon'')))
      | _ \<Rightarrow> None)"

section \<open>Spatial index: \<^verbatim>\<open>find_marketing_zone_areas\<close>\<close>

definition is_marketing_zone :: "pydict \<Rightarrow> bool" where
  "is_marketing_zone space \<longleftrightarrow>
     py_eq (py_get space ''name'') (PStr ''Marketing Zone'')
     \<and> py_eq (py_get space ''type'') (PStr ''zone'')"

text \<open>
  The first loop stops at the first space that is the Marketing Zone and keeps its id;
  the second collects the ids of the areas whose parent is that id.
\<close>

definition find_marketing_zone_areas :: "pydoc \<Rightarrow> pyval list" where
  "find_marketing_zone_areas spaces_data =
     (let marketing_zone_id =
            (case find is_marketing_zone (dict_get spaces_data ''spaces'' []) of
               None \<Rightarrow> PNone
             | Some space \<Rightarrow> py_get space ''id'')
      in if \<not> truthy marketing_zone_id then []
         else map (\<lambda>space. py_get space ''id'')
                (filter (\<lambda>space. py_eq (py_get space ''parent_id'') marketing_zone_id
                                  \<and> py_eq (py_get space ''type'') (PStr ''area''))
                   (dict_get spaces_data ''spaces'' [])))"

section \<open>Criteria normalizer: the floor\<close>

text \<open>\<^verbatim>\<open>str.isdigit\<close> on an ASCII character.\<close>

definition str_isdigit :: "char \<Rightarrow> bool" where
  "str_isdigit c \<longleftrightarrow> c \<in> set ''0123456789''"

definition digit_value :: "char \<Rightarrow> int" where
  "digit_value c = int (of_char c) - 48"

text \<open>The number a string of decimal digits denotes, most significant digit first.\<close>

definition decimal_value :: "string \<Rightarrow> int" where
  "decimal_value ds = foldl (\<lambda>acc c. 10 * acc + digit_value c) 0 ds"

text \<open>
  \<^verbatim>\<open>int(s)\<close> on the strings the code passes to it, which hold digit characters only: the
  value of a non-empty digit string, \<^verbatim>\<open>ValueError\<close> on the empty string. (A sign, blanks or
  underscores never reach it; the interpreter's limit on the length of a converted digit
  string is not part of the model.)
\<close>

definition py_int :: "string \<Rightarrow> py_error + int" where
  "py_int s = (if s \<noteq> [] \<and> list_all str_isdigit s then Inr (decimal_value s) else Inl ValueError)"

text \<open>
  Lines 263 to 270. The result is \<^verbatim>\<open>req_floor\<close> and the warnings shown to the user; an
  exception other than \<^verbatim>\<open>ValueError\<close> would leave the block.
\<close>

definition parse_req_floor :: "pyval \<Rightarrow> py_error + (int option \<times> string list)" where
  "parse_req_floor req_floor_str =
     (if truthy req_floor_str then
        (case py_int (filter str_isdigit (py_str req_floor_str)) of
           Inr n \<Rightarrow> Inr (Some n, [])
         | Inl ValueError \<Rightarrow>
             Inr (None, [''Could not parse floor '' @ [CHR 0x27] @ py_str req_floor_str
                         @ [CHR 0x27] @ '' as a number.''])
         | Inl e \<Rightarrow> Inl e)
      else Inr (None, []))"

text \<open>
  The specification's data model describes the parsed floor as the value of the leading
  run of digits. This is that reading, for comparison with the code.
\<close>

definition leading_digit_run :: "string \<Rightarrow> string" where
  "leading_digit_run s = takeWhile str_isdigit (dropWhile (\<lambda>c. \<not> str_isdigit c) s)"

definition spec_leading_run_floor :: "string \<Rightarrow> int option" where
  "spec_leading_run_floor s =
     (if leading_digit_run s = [] then None else Some (decimal_value (leading_digit_run s)))"

text \<open>
  The text the floor theorems speak about: ASCII characters, with at most 4300 digits.
  Outside ASCII, \<^verbatim>\<open>str.isdigit\<close> accepts further characters, and recent interpreters refuse
  to convert a digit string longer than 4300 characters.
\<close>

definition plain_text :: "string \<Rightarrow> bool" where
  "plain_text s \<longleftrightarrow>
     list_all (\<lambda>c. (of_char c :: nat) < 128) s \<and> length (filter str_isdigit s) \<le> 4300"

text \<open>
  The digits that come after the leading run: what the code's reading adds to the
  leading run.
\<close>

definition later_digits :: "string \<Rightarrow> string" where
  "later_digits s =
     filter str_isdigit (dropWhile str_isdigit (dropWhile (\<lambda>c. \<not> str_isdigit c) s))"

section \<open>Desk filter pipeline\<close>

text \<open>\<^verbatim>\<open>x.lower()\<close>: defined on strings only.\<close>

definition lower_char :: "char \<Rightarrow> char" where
  "lower_char c =
     (case map_of (zip ''ABCDEFGHIJKLMNOPQRSTUVWXYZ'' ''abcdefghijklmnopqrstuvwxyz'') c of
        None \<Rightarrow> c
      | Some l \<Rightarrow> l)"

fun py_lower :: "pyval \<Rightarrow> py_error + string" where
  "py_lower (PStr s) = Inr (map lower_char s)"
| "py_lower _ = Inl AttributeError"

text \<open>\<^verbatim>\<open>sep.join(xs)\<close>: every item must be a string.\<close>

fun is_pstr :: "pyval \<Rightarrow> bool" where
  "is_pstr (PStr s) = True"
| "is_pstr _ = False"

fun join_strs :: "string \<Rightarrow> string list \<Rightarrow> string" where
  "join_strs sep [] = []"
| "join_strs sep [x] = x"
| "join_strs sep (x # y # ys) = x @ sep @ join_strs sep (y # ys)"

definition py_join :: "string \<Rightarrow> pyval list \<Rightarrow> py_error + string" where
  "py_join sep xs =
     (if list_all is_pstr xs then Inr (join_strs sep (map py_str xs)) else Inl TypeError)"

text \<open>
  The state the filtering steps thread: \<^verbatim>\<open>candidate_desks\<close> and \<^verbatim>\<open>filter_log\<close>. Each step
  of lines 287 to 309 is a function on that state.
\<close>

type_synonym filter_state = "pydict list \<times> string list"

definition filter_by_type :: "pyval \<Rightarrow> filter_state \<Rightarrow> filter_state" where
  "filter_by_type req_desk_type st =
     (case st of (candidate_desks, filter_log) \<Rightarrow>
        if truthy req_desk_type then
          (let kept = filter (\<lambda>d. py_eq (py_get d ''type'') req_desk_type) candidate_desks
           in (kept, filter_log @
                 [''Filtered by type '' @ [CHR 0x27] @ py_str req_desk_type @ [CHR 0x27] @ '': ''
                  @ show_nat (length kept) @ '' remaining.'']))
        else (candidate_desks, filter_log))"

definition filter_by_floor :: "int option \<Rightarrow> filter_state \<Rightarrow> filter_state" where
  "filter_by_floor req_floor st =
     (case st of (candidate_desks, filter_log) \<Rightarrow>
        (case req_floor of
           Some n \<Rightarrow>
             (let kept = filter (\<lambda>d. py_eq (py_get d ''floor'') (PInt n)) candidate_desks
              in (kept, filter_log @
                    [''Filtered by floor '' @ [CHR 0x27] @ show_int n @ [CHR 0x27] @ '': ''
                     @ show_nat (length kept) @ '' remaining.'']))
         | None \<Rightarrow> (candidate_desks, filter_log)))"

definition filter_by_proximity ::
  "pyval \<Rightarrow> pydoc \<Rightarrow> filter_state \<Rightarrow> py_error + filter_state" where
  "filter_by_proximity req_proximity spaces_data st =
     (case st of (candidate_desks, filter_log) \<Rightarrow>
        if truthy req_proximity then
          (case py_lower req_proximity of
             Inl e \<Rightarrow> Inl e
           | Inr lowered \<Rightarrow>
               if lowered = ''marketing team'' then
                 (if spaces_data \<noteq> [] then
                    (let marketing_area_ids = find_marketing_zone_areas spaces_data
                     in if marketing_area_ids = [] then
                          Inr (candidate_desks, filter_log @
                                 [''Warning: Could not find areas associated with 'Marketing Zone'. Skipping proximity filter.''])
                        else
                          (let kept = filter (\<lambda>d. list_ex (py_eq (py_get d ''area_id''))
                                                     marketing_area_ids) candidate_desks
                           in case py_join '', '' marketing_area_ids of
                                Inl e \<Rightarrow> Inl e
                              | Inr joined \<Rightarrow>
                                  Inr (kept, filter_log @
                                         [''Filtered by proximity to 'Marketing Team' (Areas: ''
                                          @ joined @ ''): '' @ show_nat (length kept)
                                          @ '' remaining.''])))
                  else
                    Inr (candidate_desks, filter_log @
                           [''Warning: Spaces data not loaded, cannot filter by proximity.'']))
               else
                 Inr (candidate_desks, filter_log @
                        [''Note: Proximity filter for '' @ [CHR 0x27] @ py_str req_proximity
                         @ [CHR 0x27] @ '' not specifically implemented in this prototype.'']))
        else Inr (candidate_desks, filter_log))"

text \<open>Lines 279 to 309: the starting entry, then the three steps in their fixed order.\<close>

definition filter_desks ::
  "pyval \<Rightarrow> int option \<Rightarrow> pyval \<Rightarrow> pydoc \<Rightarrow> pydoc \<Rightarrow> py_error + filter_state" where
  "filter_desks req_desk_type req_floor req_proximity spaces_data desks_data =
     (let candidate_desks = dict_get desks_data ''desks'' [];
          filter_log = [''Starting with '' @ show_nat (length candidate_desks) @ '' total desks.'']
      in filter_by_proximity req_proximity spaces_data
           (filter_by_floor req_floor
              (filter_by_type req_desk_type (candidate_desks, filter_log))))"

subsection \<open>What the steps keep and what they log\<close>

text \<open>
  The predicate each step keeps desks by; a step whose criterion is absent keeps every
  desk. The proximity filter applies when the target is "marketing team" in any letter
  case, the spaces data is loaded and the Marketing Zone has areas.
\<close>

definition type_pred :: "pyval \<Rightarrow> pydict \<Rightarrow> bool" where
  "type_pred req_desk_type d \<longleftrightarrow>
     (if truthy req_desk_type then py_eq (py_get d ''type'') req_desk_type else True)"

definition floor_pred :: "int option \<Rightarrow> pydict \<Rightarrow> bool" where
  "floor_pred req_floor d \<longleftrightarrow>
     (case req_floor of None \<Rightarrow> True | Some n \<Rightarrow> py_eq (py_get d ''floor'') (PInt n))"

definition proximity_applies :: "pyval \<Rightarrow> pydoc \<Rightarrow> bool" where
  "proximity_applies req_proximity spaces_data \<longleftrightarrow>
     py_lower req_proximity = Inr ''marketing team'' \<and> spaces_data \<noteq> []
     \<and> find_marketing_zone_areas spaces_data \<noteq> []"

definition proximity_pred :: "pyval \<Rightarrow> pydoc \<Rightarrow> pydict \<Rightarrow> bool" where
  "proximity_pred req_proximity spaces_data d \<longleftrightarrow>
     (if proximity_applies req_proximity spaces_data
      then list_ex (py_eq (py_get d ''area_id'')) (find_marketing_zone_areas spaces_data)
      else True)"

text \<open>The first entry of the trace and the entry of the proximity step.\<close>

definition start_entry :: "pydoc \<Rightarrow> string" where
  "start_entry desks_data =
     ''Starting with '' @ show_nat (length (dict_get desks_data ''desks'' [])) @ '' total desks.''"

definition proximity_entry :: "pyval \<Rightarrow> pydoc \<Rightarrow> nat \<Rightarrow> string" where
  "proximity_entry req_proximity spaces_data remaining =
     (if py_lower req_proximity = Inr ''marketing team'' then
        (if spaces_data = [] then
           ''Warning: Spaces data not loaded, cannot filter by proximity.''
         else if find_marketing_zone_areas spaces_data = [] then
           ''Warning: Could not find areas associated with 'Marketing Zone'. Skipping proximity filter.''
         else
           ''Filtered by proximity to 'Marketing Team' (Areas: ''
           @ join_strs '', '' (map py_str (find_marketing_zone_areas spaces_data)) @ ''): ''
           @ show_nat remaining @ '' remaining.'')
      else
        ''Note: Proximity filter for '' @ [CHR 0x27] @ py_str req_proximity @ [CHR 0x27]
        @ '' not specifically implemented in this prototype.'')"

text \<open>
  A filter specification is the triple of desk type, floor and proximity target. The
  second specification adds constraints to the first when each field is either absent
  in the first or the same in both.
\<close>

definition adds_constraint ::
  "pyval \<times> int option \<times> pyval \<Rightarrow> pyval \<times> int option \<times> pyval \<Rightarrow> bool" where
  "adds_constraint s1 s2 =
     (case (s1, s2) of
        ((dt1, fl1, px1), (dt2, fl2, px2)) \<Rightarrow>
          (\<not> truthy dt1 \<or> dt2 = dt1) \<and> (fl1 = None \<or> fl2 = fl1) \<and> (\<not> truthy px1 \<or> px2 = px1))"

text \<open>
  Typed input of the proximity step, as the data model describes it: the target is absent
  or a string, and the ids of the Marketing Zone's areas are strings.
\<close>

definition proximity_typed :: "pyval \<Rightarrow> pydoc \<Rightarrow> bool" where
  "proximity_typed req_proximity spaces_data \<longleftrightarrow>
     (req_proximity = PNone \<or> is_pstr req_proximity)
     \<and> list_all is_pstr (find_marketing_zone_areas spaces_data)"

section \<open>Example data\<close>

definition ex_desk :: pydict where
  "ex_desk = [(''id'', PStr ''D-301''), (''status'', PStr ''occupied''),
              (''vergesense_area_id'', PStr ''VS-31'')]"

definition ex_occupancy :: "int \<Rightarrow> occupancy" where
  "ex_occupancy v =
     [(''forecast'', [(''VS-31'', [(''next_day'', [(''morning'', PInt 40), (''afternoon'', PInt v)])])])]"

definition ex_occupancy_morning :: occupancy where
  "ex_occupancy_morning =
     [(''forecast'', [(''VS-31'', [(''next_day'', [(''morning'', PInt 40)])])])]"

definition ex_policies_no_cap :: pydoc where
  "ex_policies_no_cap =
     [(''policies'', [[(''id'', PStr ''POL-002''), (''description'', PStr ''Sanitize desks.'')]])]"

definition ex_policies :: pydoc where
  "ex_policies =
     [(''policies'', [[(''id'', PStr ''POL-002''), (''description'', PStr ''Sanitize desks.'')],
                      [(''id'', PStr ''POL-005''), (''description'', PStr ''Cap areas at 70%.'')]])]"

definition ex_spaces :: pydoc where
  "ex_spaces =
     [(''spaces'',
        [[(''id'', PStr ''Z-ENG''), (''name'', PStr ''Engineering Zone''), (''type'', PStr ''zone'')],
         [(''id'', PStr ''Z-MKT''), (''name'', PStr ''Marketing Zone''), (''type'', PStr ''zone'')],
         [(''id'', PStr ''A-31''), (''name'', PStr ''Area 3A''), (''type'', PStr ''area''),
          (''parent_id'', PStr ''Z-MKT'')],
         [(''id'', PStr ''A-21''), (''name'', PStr ''Area 2A''), (''type'', PStr ''area''),
          (''parent_id'', PStr ''Z-ENG'')],
         [(''id'', PStr ''A-32''), (''name'', PStr ''Area 3B''), (''type'', PStr ''area''),
          (''parent_id'', PStr ''Z-MKT'')]])]"

definition ex_spaces_no_zone :: pydoc where
  "ex_spaces_no_zone =
     [(''spaces'',
        [[(''id'', PStr ''Z-ENG''), (''name'', PStr ''Engineering Zone''), (''type'', PStr ''zone'')],
         [(''id'', PStr ''A-21''), (''name'', PStr ''Marketing Zone''), (''type'', PStr ''area''),
          (''parent_id'', PStr ''Z-ENG'')]])]"

definition ex_spaces_falsy_id :: pydoc where
  "ex_spaces_falsy_id =
     [(''spaces'',
        [[(''id'', PInt 0), (''name'', PStr ''Marketing Zone''), (''type'', PStr ''zone'')],
         [(''id'', PStr ''A-31''), (''name'', PStr ''Area 3A''), (''type'', PStr ''area''),
          (''parent_id'', PInt 0)]])]"

definition ex_d301 :: pydict where
  "ex_d301 = [(''id'', PStr ''D-301''), (''type'', PStr ''standing''), (''floor'', PInt 3),
              (''area_id'', PStr ''A-31''), (''status'', PStr ''available''),
              (''vergesense_area_id'', PStr ''VS-31'')]"

definition ex_d302 :: pydict where
  "ex_d302 = [(''id'', PStr ''D-302''), (''type'', PStr ''regular''), (''floor'', PInt 3),
              (''area_id'', PStr ''A-31''), (''status'', PStr ''available''),
              (''vergesense_area_id'', PStr ''VS-31'')]"

definition ex_d201 :: pydict where
  "ex_d201 = [(''id'', PStr ''D-201''), (''type'', PStr ''standing''), (''floor'', PInt 2),
              (''area_id'', PStr ''A-21''), (''status'', PStr ''occupied''),
              (''vergesense_area_id'', PStr ''VS-21'')]"

definition ex_d303 :: pydict where
  "ex_d303 = [(''id'', PStr ''D-303''), (''type'', PStr ''standing''), (''floor'', PInt 3),
              (''area_id'', PStr ''A-32''), (''status'', PStr ''maintenance''),
              (''vergesense_area_id'', PStr ''VS-32'')]"

definition ex_desks :: pydoc where
  "ex_desks = [(''desks'', [ex_d301, ex_d302, ex_d201, ex_d303])]"

section \<open>Facts about values and lookups\<close>

lemma py_eq_PStr [simp]: "py_eq v (PStr s) \<longleftrightarrow> v = PStr s"
  by (cases v) (auto simp: py_eq_def)

lemma py_get_Nil [simp]: "py_get [] k = PNone"
  by (simp add: py_get_def dict_get_def)

lemma show_int_80: "show_int 80 = ''80''"
  by code_simp

lemma show_int_79: "show_int 79 = ''79''"
  by code_simp

lemma py_lower_marketing_truthy:
  "py_lower p = Inr ''marketing team'' \<Longrightarrow> truthy p"
  by (cases p) auto

section \<open>The availability evaluator\<close>

text \<open>
  The evaluator for "tomorrow afternoon", with the forecast lookup named.
\<close>

lemma check_unfold_forecast:
  "check_desk_availability desk ''tomorrow afternoon'' occupancy_data policies =
     (if py_get desk ''status'' = PStr ''maintenance'' then
        Inr (False, ''Desk is under maintenance.'')
      else if forecast_lookup occupancy_data (py_get desk ''vergesense_area_id'') = PNone then
        Inr (False, ''No 'afternoon' forecast data available for Area ''
                    @ py_str (py_get desk ''vergesense_area_id'') @ '' tomorrow.'')
      else
        (case capacity_threshold policies of
           Inl e \<Rightarrow> Inl e
         | Inr threshold \<Rightarrow>
             (case py_ge (forecast_lookup occupancy_data (py_get desk ''vergesense_area_id''))
                     threshold of
                Inl e \<Rightarrow> Inl e
              | Inr True \<Rightarrow>
                  Inr (False, ''Area '' @ py_str (py_get desk ''vergesense_area_id'')
                        @ '' forecasted occupancy (''
                        @ py_str (forecast_lookup occupancy_data (py_get desk ''vergesense_area_id''))
                        @ ''%) meets/exceeds threshold ('' @ show_int threshold
                        @ ''%) for tomorrow afternoon.'')
              | Inr False \<Rightarrow>
                  Inr (True, ''Area '' @ py_str (py_get desk ''vergesense_area_id'')
                        @ '' forecast (''
                        @ py_str (forecast_lookup occupancy_data (py_get desk ''vergesense_area_id''))
                        @ ''%) is below threshold ('' @ show_int threshold
                        @ ''%) for tomorrow afternoon. Desk *may* be available.''))))"
  unfolding check_desk_availability_def forecast_lookup_def Let_def by simp

lemma forecast_lookup_entry:
  "forecast_lookup occupancy_data area_id =
     (case afternoon_entry occupancy_data area_id of None \<Rightarrow> PNone | Some v \<Rightarrow> v)"
  by (cases area_id)
     (auto simp: forecast_lookup_def afternoon_entry_def dict_get_def py_get_def
           split: option.splits Option.bind_splits)

text \<open>
  Whatever the policies are, a threshold that is computed is 80; for policies whose
  descriptions are strings it is always computed.
\<close>

lemma capacity_threshold_is_80:
  assumes "capacity_threshold policies = Inr t"
  shows "t = 80"
  using assms
  by (auto simp: capacity_threshold_def Let_def split: option.splits if_splits sum.splits)

lemma capacity_threshold_wf:
  assumes "policies_wf policies"
  shows "capacity_threshold policies = Inr 80"
proof (cases "find (\<lambda>p. py_eq (py_get p ''id'') (PStr ''POL-005''))
                (dict_get policies ''policies'' [])")
  case None
  then show ?thesis by (simp add: capacity_threshold_def)
next
  case (Some p)
  then have "p \<in> set (dict_get policies ''policies'' [])"
    by (auto simp: find_Some_iff)
  with assms have "policy_wf p"
    by (simp add: policies_wf_def list_all_iff)
  then obtain hit where "py_in_str ''80%'' (dict_get p ''description'' (PStr [])) = Inr hit"
    by (auto simp: policy_wf_def dict_get_def split: option.splits pyval.splits)
  with Some show ?thesis
    by (simp add: capacity_threshold_def)
qed

text \<open>
  The example desk, forecast and policies.
\<close>

lemma ex_status: "py_get ex_desk ''status'' = PStr ''occupied''"
  by (simp add: ex_desk_def py_get_def dict_get_def)

lemma ex_area: "py_get ex_desk ''vergesense_area_id'' = PStr ''VS-31''"
  by (simp add: ex_desk_def py_get_def dict_get_def)

lemma ex_entry: "afternoon_entry (ex_occupancy v) (PStr ''VS-31'') = Some (PInt v)"
  by (simp add: afternoon_entry_def ex_occupancy_def)

lemma ex_no_entry: "afternoon_entry ex_occupancy_morning (PStr ''VS-31'') = None"
  by (simp add: afternoon_entry_def ex_occupancy_morning_def)

lemma ex_policies_wf: "policies_wf ex_policies"
  by (simp add: policies_wf_def policy_wf_def ex_policies_def dict_get_def)

lemma ex_policies_no_cap_wf: "policies_wf ex_policies_no_cap"
  by (simp add: policies_wf_def policy_wf_def ex_policies_no_cap_def dict_get_def)

subsection \<open>Tomorrow afternoon: forecast against the threshold\<close>

text \<open>
  Claim C1. For a desk whose status is not \<^verbatim>\<open>maintenance\<close> and the time request
  "tomorrow afternoon": when the occupancy forecast has no afternoon entry for the desk's
  \<^verbatim>\<open>vergesense_area_id\<close> the desk is unavailable, whatever the policies are (missing data
  fails closed); when the entry is an integer \<open>v\<close> and the policies are well formed, the desk
  is unavailable if \<open>v \<ge> 80\<close>, so also at exactly 80, and available if \<open>v < 80\<close>, with a
  reason that prints the forecast value and the threshold 80.
\<close>

theorem tomorrow_afternoon_decision:
  assumes "py_get desk ''status'' \<noteq> PStr ''maintenance''"
  shows "(afternoon_entry occupancy_data (py_get desk ''vergesense_area_id'') = None \<longrightarrow>
            check_desk_availability desk ''tomorrow afternoon'' occupancy_data policies
              = Inr (False, ''No 'afternoon' forecast data available for Area ''
                            @ py_str (py_get desk ''vergesense_area_id'') @ '' tomorrow.''))
       \<and> (\<forall>v. afternoon_entry occupancy_data (py_get desk ''vergesense_area_id'') = Some (PInt v)
               \<and> policies_wf policies \<longrightarrow>
            check_desk_availability desk ''tomorrow afternoon'' occupancy_data policies
              = Inr (if 80 \<le> v
                     then (False, ''Area '' @ py_str (py_get desk ''vergesense_area_id'')
                                  @ '' forecasted occupancy ('' @ show_int v
                                  @ ''%) meets/exceeds threshold (80%) for tomorrow afternoon.'')
                     else (True, ''Area '' @ py_str (py_get desk ''vergesense_area_id'')
                                 @ '' forecast ('' @ show_int v
                                 @ ''%) is below threshold (80%) for tomorrow afternoon. Desk *may* be available.'')))"
  using assms
  by (auto simp: check_unfold_forecast forecast_lookup_entry capacity_threshold_wf show_int_80)

text \<open>
  The three cases on the example desk: a forecast with a morning entry only, a forecast
  of exactly 80 and a forecast of 79.
\<close>

theorem tomorrow_afternoon_decision_witness:
  "py_get ex_desk ''status'' \<noteq> PStr ''maintenance''
   \<and> afternoon_entry ex_occupancy_morning (py_get ex_desk ''vergesense_area_id'') = None
   \<and> check_desk_availability ex_desk ''tomorrow afternoon'' ex_occupancy_morning ex_policies
       = Inr (False, ''No 'afternoon' forecast data available for Area VS-31 tomorrow.'')
   \<and> afternoon_entry (ex_occupancy 80) (py_get ex_desk ''vergesense_area_id'') = Some (PInt 80)
   \<and> policies_wf ex_policies
   \<and> check_desk_availability ex_desk ''tomorrow afternoon'' (ex_occupancy 80) ex_policies
       = Inr (False, ''Area VS-31 forecasted occupancy (80%) meets/exceeds threshold (80%) for tomorrow afternoon.'')
   \<and> afternoon_entry (ex_occupancy 79) (py_get ex_desk ''vergesense_area_id'') = Some (PInt 79)
   \<and> check_desk_availability ex_desk ''tomorrow afternoon'' (ex_occupancy 79) ex_policies
       = Inr (True, ''Area VS-31 forecast (79%) is below threshold (80%) for tomorrow afternoon. Desk *may* be available.'')"
proof -
  have st: "py_get ex_desk ''status'' \<noteq> PStr ''maintenance''"
    by (simp add: ex_status)
  have none: "afternoon_entry ex_occupancy_morning (py_get ex_desk ''vergesense_area_id'') = None"
    by (simp add: ex_area ex_no_entry)
  show ?thesis
    using st none ex_policies_wf
      tomorrow_afternoon_decision [OF st, of ex_occupancy_morning ex_policies]
      tomorrow_afternoon_decision [OF st, of "ex_occupancy 80" ex_policies]
      tomorrow_afternoon_decision [OF st, of "ex_occupancy 79" ex_policies]
    by (simp add: ex_area ex_entry ex_no_entry show_int_80 show_int_79)
qed

subsection \<open>Now: the current status\<close>

text \<open>
  Claim C5. For every desk and the time request "now", the evaluator returns a result
  (it never raises), the desk is available if and only if its status is the string
  \<^verbatim>\<open>available\<close>, and for any other status, \<^verbatim>\<open>maintenance\<close> included, the reason contains
  the status as the desk holds it.
\<close>

theorem now_iff_status_available:
  "\<exists>reason. check_desk_availability desk ''now'' occupancy_data policies
               = Inr (py_get desk ''status'' = PStr ''available'', reason)
           \<and> (py_get desk ''status'' \<noteq> PStr ''available'' \<longrightarrow>
                sublist (py_str (py_get desk ''status'')) reason)"
proof (cases "py_get desk ''status'' = PStr ''maintenance''")
  case True
  have "sublist ''maintenance'' (''Desk is under '' @ ''maintenance'' @ ''.'')"
    by (rule sublist_appendI)
  with True show ?thesis
    by (simp add: check_desk_availability_def)
next
  case False
  have "sublist (py_str (py_get desk ''status''))
          ((''Desk status is currently '' @ [CHR 0x27]) @ py_str (py_get desk ''status'')
            @ ([CHR 0x27] @ ''.''))"
    by (rule sublist_appendI)
  with False show ?thesis
    by (simp add: check_desk_availability_def)
qed

text \<open>An occupied desk, an available desk and a desk under maintenance.\<close>

theorem now_iff_status_available_witness:
  "py_get ex_desk ''status'' \<noteq> PStr ''available''
   \<and> (\<exists>reason. check_desk_availability ex_desk ''now'' (ex_occupancy 10) ex_policies
                   = Inr (False, reason) \<and> sublist ''occupied'' reason)
   \<and> (\<exists>reason. check_desk_availability ex_d301 ''now'' (ex_occupancy 10) ex_policies
                   = Inr (True, reason))
   \<and> py_get ex_d303 ''status'' \<noteq> PStr ''available''
   \<and> (\<exists>reason. check_desk_availability ex_d303 ''now'' (ex_occupancy 10) ex_policies
                   = Inr (False, reason) \<and> sublist ''maintenance'' reason)"
proof -
  have a: "py_get ex_d301 ''status'' = PStr ''available''"
    by (simp add: ex_d301_def py_get_def dict_get_def)
  have m: "py_get ex_d303 ''status'' = PStr ''maintenance''"
    by (simp add: ex_d303_def py_get_def dict_get_def)
  show ?thesis
    using now_iff_status_available [of ex_desk "ex_occupancy 10" ex_policies]
      now_iff_status_available [of ex_d301 "ex_occupancy 10" ex_policies]
      now_iff_status_available [of ex_d303 "ex_occupancy 10" ex_policies]
    by (simp add: ex_status a m)
qed

subsection \<open>The maintenance check is terminal\<close>

text \<open>
  Claim C6. A desk whose status is \<^verbatim>\<open>maintenance\<close> is unavailable with the reason
  "Desk is under maintenance." for every time request, every occupancy forecast and
  every policies input: the result does not depend on any of them, and no lookup that
  could raise is made.
\<close>

theorem maintenance_terminal:
  assumes "py_get desk ''status'' = PStr ''maintenance''"
  shows "check_desk_availability desk time_request occupancy_data policies
           = Inr (False, ''Desk is under maintenance.'')"
  using assms by (simp add: check_desk_availability_def)

theorem maintenance_terminal_witness:
  "py_get [(''id'', PStr ''D-7''), (''status'', PStr ''maintenance'')] ''status''
     = PStr ''maintenance''
   \<and> check_desk_availability [(''id'', PStr ''D-7''), (''status'', PStr ''maintenance'')]
        ''tomorrow afternoon''
        [(''forecast'', [(''A-1'', [(''next_day'', [(''afternoon'', PStr ''n/a'')])])])]
        [(''policies'', [[(''id'', PStr ''POL-005''), (''description'', PNone)]])]
     = Inr (False, ''Desk is under maintenance.'')"
proof -
  have h: "py_get [(''id'', PStr ''D-7''), (''status'', PStr ''maintenance'')] ''status''
             = PStr ''maintenance''"
    by (simp add: py_get_def dict_get_def)
  show ?thesis
    using h maintenance_terminal [OF h] by simp
qed

subsection \<open>The policies do not change the decision\<close>

text \<open>
  Claim C8. For every desk and occupancy forecast and any two well-formed policies
  inputs, with or without a \<^verbatim>\<open>POL-005\<close> entry and whatever its description says, the
  evaluation for "tomorrow afternoon" gives the same result, and the threshold computed is
  80 for both. For policies of any shape, a threshold that is computed is 80, and two
  evaluations that both return a result return the same one.
\<close>

theorem threshold_independent_of_policies:
  "(policies_wf p1 \<and> policies_wf p2 \<longrightarrow>
      check_desk_availability desk ''tomorrow afternoon'' occupancy_data p1
        = check_desk_availability desk ''tomorrow afternoon'' occupancy_data p2
      \<and> capacity_threshold p1 = Inr 80 \<and> capacity_threshold p2 = Inr 80)
   \<and> (\<forall>t. capacity_threshold p1 = Inr t \<longrightarrow> t = 80)
   \<and> (\<forall>r1 r2. check_desk_availability desk ''tomorrow afternoon'' occupancy_data p1 = Inr r1
               \<and> check_desk_availability desk ''tomorrow afternoon'' occupancy_data p2 = Inr r2
              \<longrightarrow> r1 = r2)"
proof (intro conjI impI allI)
  fix r1 r2
  assume "check_desk_availability desk ''tomorrow afternoon'' occupancy_data p1 = Inr r1
          \<and> check_desk_availability desk ''tomorrow afternoon'' occupancy_data p2 = Inr r2"
  then show "r1 = r2"
    by (auto simp: check_unfold_forecast split: if_splits sum.splits bool.splits
             dest!: capacity_threshold_is_80)
qed (simp_all add: check_unfold_forecast capacity_threshold_wf capacity_threshold_is_80)

text \<open>
  Policies with a \<^verbatim>\<open>POL-005\<close> entry that does not mention 80%, against policies with no
  entry at all.
\<close>

theorem threshold_independent_of_policies_witness:
  "policies_wf ex_policies \<and> policies_wf ex_policies_no_cap
   \<and> check_desk_availability ex_desk ''tomorrow afternoon'' (ex_occupancy 79) ex_policies
       = check_desk_availability ex_desk ''tomorrow afternoon'' (ex_occupancy 79) ex_policies_no_cap
   \<and> capacity_threshold ex_policies = Inr 80 \<and> capacity_threshold ex_policies_no_cap = Inr 80"
proof -
  from ex_policies_wf ex_policies_no_cap_wf
  have wf: "policies_wf ex_policies \<and> policies_wf ex_policies_no_cap"
    by simp
  from threshold_independent_of_policies
         [of ex_policies ex_policies_no_cap ex_desk "ex_occupancy 79"] wf
  have "check_desk_availability ex_desk ''tomorrow afternoon'' (ex_occupancy 79) ex_policies
          = check_desk_availability ex_desk ''tomorrow afternoon'' (ex_occupancy 79)
              ex_policies_no_cap
        \<and> capacity_threshold ex_policies = Inr 80
        \<and> capacity_threshold ex_policies_no_cap = Inr 80"
    by blast
  with wf show ?thesis by blast
qed

section \<open>The spatial index\<close>

lemma no_zone_no_areas:
  assumes "\<forall>space \<in> set (dict_get spaces_data ''spaces'' []). \<not> is_marketing_zone space"
  shows "find_marketing_zone_areas spaces_data = []"
proof -
  from assms have "find is_marketing_zone (dict_get spaces_data ''spaces'' []) = None"
    by (simp add: find_None_iff)
  then show ?thesis by (simp add: find_marketing_zone_areas_def)
qed

text \<open>
  Claim C10. Whenever the first space that is the Marketing Zone has a falsy id
  (\<^verbatim>\<open>None\<close>, 0, \<^verbatim>\<open>False\<close> or the empty string), the areas found are empty although a
  matching zone exists: the check after the first loop tests the id, not whether a zone
  was found.
\<close>

theorem falsy_zone_id_gives_no_areas:
  assumes "find is_marketing_zone (dict_get spaces_data ''spaces'' []) = Some zone"
    and "\<not> truthy (py_get zone ''id'')"
  shows "find_marketing_zone_areas spaces_data = []"
  using assms by (simp add: find_marketing_zone_areas_def)

text \<open>
  A Marketing Zone whose id is 0 and an area whose parent is 0: no area is found.
\<close>

theorem falsy_zone_id_gives_no_areas_witness:
  "find is_marketing_zone (dict_get ex_spaces_falsy_id ''spaces'' [])
     = Some [(''id'', PInt 0), (''name'', PStr ''Marketing Zone''), (''type'', PStr ''zone'')]
   \<and> \<not> truthy (py_get [(''id'', PInt 0), (''name'', PStr ''Marketing Zone''),
                         (''type'', PStr ''zone'')] ''id'')
   \<and> find_marketing_zone_areas ex_spaces_falsy_id = []"
proof -
  have f: "find is_marketing_zone (dict_get ex_spaces_falsy_id ''spaces'' [])
     = Some [(''id'', PInt 0), (''name'', PStr ''Marketing Zone''), (''type'', PStr ''zone'')]"
    by (simp add: ex_spaces_falsy_id_def dict_get_def is_marketing_zone_def py_get_def)
  have t: "\<not> truthy (py_get [(''id'', PInt 0), (''name'', PStr ''Marketing Zone''),
                         (''type'', PStr ''zone'')] ''id'')"
    by (simp add: py_get_def dict_get_def)
  show ?thesis
    using f t falsy_zone_id_gives_no_areas [OF f t] by simp
qed

section \<open>The floor of the criteria\<close>

lemma py_int_digits:
  "py_int (filter str_isdigit s)
     = (if filter str_isdigit s = [] then Inl ValueError
        else Inr (decimal_value (filter str_isdigit s)))"
  by (simp add: py_int_def list_all_iff)

lemma parse_req_floor_truthy:
  assumes "truthy v"
  shows "parse_req_floor v =
           Inr (if filter str_isdigit (py_str v) = []
                then (None, [''Could not parse floor '' @ [CHR 0x27] @ py_str v @ [CHR 0x27]
                             @ '' as a number.''])
                else (Some (decimal_value (filter str_isdigit (py_str v))), []))"
  using assms by (simp add: parse_req_floor_def py_int_digits)

lemma decimal_value_append:
  "decimal_value (a @ b) = decimal_value a * 10 ^ length b + decimal_value b"
proof (induction b rule: rev_induct)
  case Nil
  then show ?case by (simp add: decimal_value_def)
next
  case (snoc c b)
  have "decimal_value (a @ b @ [c]) = 10 * decimal_value (a @ b) + digit_value c"
    by (simp add: decimal_value_def)
  also have "\<dots> = 10 * (decimal_value a * 10 ^ length b + decimal_value b) + digit_value c"
    by (simp add: snoc.IH)
  also have "\<dots> = decimal_value a * 10 ^ length (b @ [c]) + decimal_value (b @ [c])"
    by (simp add: decimal_value_def algebra_simps)
  finally show ?case by simp
qed

lemma filter_dropWhile_not: "filter P (dropWhile (\<lambda>x. \<not> P x) xs) = filter P xs"
  by (induction xs) auto

lemma filter_takeWhile_same: "filter P (takeWhile P xs) = takeWhile P xs"
  by (induction xs) auto

lemma digits_split:
  "filter str_isdigit s
     = leading_digit_run s
       @ filter str_isdigit (dropWhile str_isdigit (dropWhile (\<lambda>c. \<not> str_isdigit c) s))"
proof -
  let ?t = "dropWhile (\<lambda>c. \<not> str_isdigit c) s"
  have "filter str_isdigit s = filter str_isdigit ?t"
    by (simp add: filter_dropWhile_not)
  also have "\<dots> = filter str_isdigit (takeWhile str_isdigit ?t @ dropWhile str_isdigit ?t)"
    by simp
  also have "\<dots> = takeWhile str_isdigit ?t @ filter str_isdigit (dropWhile str_isdigit ?t)"
    unfolding filter_append filter_takeWhile_same ..
  finally show ?thesis by (simp add: leading_digit_run_def)
qed

text \<open>
  Rendering a number and reading it back: the digits \<^verbatim>\<open>str\<close> prints denote the number, so
  an integer floor other than 0 is normalized to its absolute value.
\<close>

lemma digit_char_props:
  assumes "k < 10"
  shows "str_isdigit (''0123456789'' ! k)" and "digit_value (''0123456789'' ! k) = int k"
proof -
  from assms have "k \<in> {0, 1, 2, 3, 4, 5, 6, 7, 8, 9}"
    by auto
  then show "str_isdigit (''0123456789'' ! k)" and "digit_value (''0123456789'' ! k) = int k"
    by (auto simp: str_isdigit_def digit_value_def)
qed

lemma show_nat_digits: "list_all str_isdigit (show_nat n) \<and> show_nat n \<noteq> []"
proof (induction n rule: show_nat.induct)
  case (1 n)
  show ?case
  proof (cases "n < 10")
    case True
    then show ?thesis
      by (subst (1 2) show_nat.simps) (simp add: digit_char_props)
  next
    case False
    with 1 show ?thesis
      by (subst (1 2) show_nat.simps) (simp add: digit_char_props)
  qed
qed

lemma decimal_value_show_nat: "decimal_value (show_nat n) = int n"
proof (induction n rule: show_nat.induct)
  case (1 n)
  show ?case
  proof (cases "n < 10")
    case True
    then show ?thesis
      by (subst show_nat.simps) (simp add: decimal_value_def digit_char_props)
  next
    case False
    have "decimal_value (show_nat n)
            = decimal_value (show_nat (n div 10) @ [''0123456789'' ! (n mod 10)])"
      using False by (subst show_nat.simps) simp
    also have "\<dots> = decimal_value (show_nat (n div 10)) * 10
                      + decimal_value [''0123456789'' ! (n mod 10)]"
      by (simp only: decimal_value_append) simp
    also have "\<dots> = int (n div 10) * 10 + int (n mod 10)"
      using False 1 by (simp add: decimal_value_def digit_char_props)
    also have "\<dots> = int n"
      by (simp add: zdiv_int zmod_int)
    finally show ?thesis .
  qed
qed

lemma digits_of_show_int: "filter str_isdigit (show_int i) = show_nat (nat \<bar>i\<bar>)"
proof -
  have f: "filter str_isdigit (show_nat n) = show_nat n" for n
    using show_nat_digits [of n] by (simp add: list_all_iff filter_id_conv)
  have "\<not> str_isdigit CHR ''-''"
    by (simp add: str_isdigit_def)
  then show ?thesis
    by (simp add: show_int_def f)
qed

lemma parse_req_floor_int:
  assumes "i \<noteq> 0"
  shows "parse_req_floor (PInt i) = Inr (Some \<bar>i\<bar>, [])"
  using assms show_nat_digits [of "nat \<bar>i\<bar>"]
  by (simp add: parse_req_floor_truthy digits_of_show_int decimal_value_show_nat)

subsection \<open>All digits, not the leading run\<close>

text \<open>
  Claim C2, as the specification states it, fails: the code joins all the digits of the
  text, so a text with two digit runs gives the number written by both runs, here 32,
  where the leading run alone gives 3.
\<close>

theorem leading_run_counterexample:
  "parse_req_floor (PStr ''3rd floor, room 2'') = Inr (Some 32, [])
   \<and> spec_leading_run_floor ''3rd floor, room 2'' = Some 3"
  by code_simp

text \<open>
  Claim C2, amended. For every truthy floor value whose text is plain, the normalized
  floor is the number written by all the digit characters of the text in order, and
  \<^verbatim>\<open>None\<close> when the text has no digit. That number is the value of the leading run
  shifted by the number of later digits, plus the value of the later digits; whenever no
  digit follows the leading run, the normalized floor is the value of the leading run.
\<close>

theorem floor_is_value_of_all_digits:
  assumes "truthy v" and "plain_text (py_str v)"
  shows "(\<exists>warnings. parse_req_floor v
            = Inr (if filter str_isdigit (py_str v) = [] then None
                   else Some (decimal_value (filter str_isdigit (py_str v))), warnings))
       \<and> decimal_value (filter str_isdigit (py_str v))
           = decimal_value (leading_digit_run (py_str v)) * 10 ^ length (later_digits (py_str v))
             + decimal_value (later_digits (py_str v))
       \<and> (later_digits (py_str v) = [] \<longrightarrow>
            (\<exists>warnings. parse_req_floor v = Inr (spec_leading_run_floor (py_str v), warnings)))"
proof -
  let ?s = "py_str v"
  have split: "filter str_isdigit ?s = leading_digit_run ?s @ later_digits ?s"
    unfolding later_digits_def by (rule digits_split)
  have 1: "\<exists>warnings. parse_req_floor v
            = Inr (if filter str_isdigit ?s = [] then None
                   else Some (decimal_value (filter str_isdigit ?s)), warnings)"
    by (simp add: parse_req_floor_truthy [OF assms(1)])
  have 2: "decimal_value (filter str_isdigit ?s)
           = decimal_value (leading_digit_run ?s) * 10 ^ length (later_digits ?s)
             + decimal_value (later_digits ?s)"
    by (simp only: split decimal_value_append)
  have 3: "\<exists>warnings. parse_req_floor v = Inr (spec_leading_run_floor ?s, warnings)"
    if "later_digits ?s = []"
  proof -
    from that split have "filter str_isdigit ?s = leading_digit_run ?s"
      by simp
    then show ?thesis
      by (simp add: parse_req_floor_truthy [OF assms(1)] spec_leading_run_floor_def)
  qed
  from 1 2 3 show ?thesis by blast
qed

theorem floor_is_value_of_all_digits_witness:
  "truthy (PStr ''3rd floor, room 2'') \<and> plain_text (py_str (PStr ''3rd floor, room 2''))
   \<and> (\<exists>warnings. parse_req_floor (PStr ''3rd floor, room 2'') = Inr (Some 32, warnings))
   \<and> decimal_value ''32'' = decimal_value ''3'' * 10 ^ length ''2'' + decimal_value ''2''
   \<and> truthy (PStr ''2nd floor'') \<and> plain_text (py_str (PStr ''2nd floor''))
   \<and> later_digits (py_str (PStr ''2nd floor'')) = []
   \<and> (\<exists>warnings. parse_req_floor (PStr ''2nd floor'')
          = Inr (spec_leading_run_floor (py_str (PStr ''2nd floor'')), warnings))"
proof -
  have t: "truthy (PStr ''3rd floor, room 2'')"
    by simp
  have p: "plain_text (py_str (PStr ''3rd floor, room 2''))"
    by code_simp
  have d: "filter str_isdigit ''3rd floor, room 2'' = ''32''"
    by code_simp
  have r: "leading_digit_run ''3rd floor, room 2'' = ''3''"
    by code_simp
  have q: "later_digits ''3rd floor, room 2'' = ''2''"
    by code_simp
  have v: "decimal_value ''32'' = 32"
    by code_simp
  note T = floor_is_value_of_all_digits [OF t p, unfolded py_str.simps d r q]
  from T have "\<exists>warnings. parse_req_floor (PStr ''3rd floor, room 2'') = Inr (Some 32, warnings)"
    by (simp add: v)
  moreover from T
  have "decimal_value ''32'' = decimal_value ''3'' * 10 ^ length ''2'' + decimal_value ''2''"
    by (rule conjunct2 [THEN conjunct1])
  moreover have t2: "truthy (PStr ''2nd floor'')"
    by simp
  moreover have p2: "plain_text (py_str (PStr ''2nd floor''))"
    by code_simp
  moreover have q2: "later_digits (py_str (PStr ''2nd floor'')) = []"
    by code_simp
  moreover from floor_is_value_of_all_digits [OF t2 p2] q2
  have "\<exists>warnings. parse_req_floor (PStr ''2nd floor'')
          = Inr (spec_leading_run_floor (py_str (PStr ''2nd floor'')), warnings)"
    by blast
  ultimately show ?thesis
    using t p by blast
qed

subsection \<open>No digits: a warning, unless the text is empty\<close>

text \<open>
  Claim C3, as the specification states it, fails at the empty string: an empty floor
  is falsy, the parsing is skipped and no warning is given.
\<close>

theorem empty_floor_no_warning_counterexample:
  "parse_req_floor (PStr '''') = Inr (None, [])"
  by code_simp

text \<open>
  Claim C3, amended. For every truthy floor value whose text is plain, the normalized
  floor is the number written by all the digit characters of the text in order; when the
  text has no digit the floor is \<^verbatim>\<open>None\<close> and one warning is given, never an exception. For
  the empty string the floor is \<^verbatim>\<open>None\<close> and no warning is given. A floor of \<^verbatim>\<open>None\<close>
  leaves the candidates and the trace as they are: no floor filter is applied.
\<close>

theorem floor_warning_unless_empty:
  "(truthy v \<and> plain_text (py_str v) \<longrightarrow>
      parse_req_floor v
        = Inr (if filter str_isdigit (py_str v) = []
               then (None, [''Could not parse floor '' @ [CHR 0x27] @ py_str v @ [CHR 0x27]
                            @ '' as a number.''])
               else (Some (decimal_value (filter str_isdigit (py_str v))), [])))
   \<and> parse_req_floor (PStr []) = Inr (None, [])
   \<and> filter_by_floor None (candidate_desks, filter_log) = (candidate_desks, filter_log)"
  by (simp add: parse_req_floor_truthy) (simp add: parse_req_floor_def filter_by_floor_def)

theorem floor_warning_unless_empty_witness:
  "truthy (PStr ''3rd'') \<and> plain_text (py_str (PStr ''3rd''))
   \<and> parse_req_floor (PStr ''3rd'') = Inr (Some 3, [])
   \<and> truthy (PStr ''2nd floor'') \<and> plain_text (py_str (PStr ''2nd floor''))
   \<and> parse_req_floor (PStr ''2nd floor'') = Inr (Some 2, [])
   \<and> truthy (PStr ''abc'') \<and> plain_text (py_str (PStr ''abc''))
   \<and> parse_req_floor (PStr ''abc'')
       = Inr (None, [''Could not parse floor 'abc' as a number.''])
   \<and> truthy (PInt 3) \<and> plain_text (py_str (PInt 3))
   \<and> parse_req_floor (PInt 3) = Inr (Some 3, [])"
proof -
  have h3: "truthy (PStr ''3rd'') \<and> plain_text (py_str (PStr ''3rd''))"
    by code_simp
  have h2: "truthy (PStr ''2nd floor'') \<and> plain_text (py_str (PStr ''2nd floor''))"
    by code_simp
  have ha: "truthy (PStr ''abc'') \<and> plain_text (py_str (PStr ''abc''))"
    by code_simp
  have d: "filter str_isdigit ''3rd'' = ''3''" "filter str_isdigit ''2nd floor'' = ''2''"
    "filter str_isdigit ''abc'' = []" "decimal_value ''3'' = 3" "decimal_value ''2'' = 2"
    by code_simp+
  from floor_warning_unless_empty [of "PStr ''3rd''", THEN conjunct1] h3 d
  have r3: "parse_req_floor (PStr ''3rd'') = Inr (Some 3, [])"
    by simp
  from floor_warning_unless_empty [of "PStr ''2nd floor''", THEN conjunct1] h2 d
  have r2: "parse_req_floor (PStr ''2nd floor'') = Inr (Some 2, [])"
    by simp
  from floor_warning_unless_empty [of "PStr ''abc''", THEN conjunct1] ha d
  have ra: "parse_req_floor (PStr ''abc'') = Inr (None, [''Could not parse floor 'abc' as a number.''])"
    by simp
  have hi: "truthy (PInt 3) \<and> plain_text (py_str (PInt 3))"
    by code_simp
  have di: "filter str_isdigit (py_str (PInt 3)) = ''3''"
    by code_simp
  from floor_warning_unless_empty [of "PInt 3", THEN conjunct1] hi di d
  have ri: "parse_req_floor (PInt 3) = Inr (Some 3, [])"
    by simp
  from h3 h2 ha hi r3 r2 ra ri show ?thesis
    by blast
qed

section \<open>The desk filter pipeline\<close>

lemma type_pred_truthy:
  "truthy dt \<Longrightarrow> type_pred dt = (\<lambda>d. py_eq (py_get d ''type'') dt)"
  by (rule ext) (simp add: type_pred_def)

lemma type_pred_falsy: "\<not> truthy dt \<Longrightarrow> type_pred dt = (\<lambda>d. True)"
  by (rule ext) (simp add: type_pred_def)

lemma floor_pred_Some: "floor_pred (Some n) = (\<lambda>d. py_eq (py_get d ''floor'') (PInt n))"
  by (rule ext) (simp add: floor_pred_def)

lemma floor_pred_None: "floor_pred None = (\<lambda>d. True)"
  by (rule ext) (simp add: floor_pred_def)

lemma proximity_pred_applies:
  "proximity_applies px sp \<Longrightarrow>
   proximity_pred px sp
     = (\<lambda>d. list_ex (py_eq (py_get d ''area_id'')) (find_marketing_zone_areas sp))"
  by (rule ext) (simp add: proximity_pred_def)

lemma proximity_pred_skip: "\<not> proximity_applies px sp \<Longrightarrow> proximity_pred px sp = (\<lambda>d. True)"
  by (rule ext) (simp add: proximity_pred_def)

text \<open>
  Each step keeps the desks of its predicate and appends at most one entry.
\<close>

lemma filter_by_type_eq:
  "filter_by_type dt (c, l) =
     (filter (type_pred dt) c,
      l @ (if truthy dt
           then [''Filtered by type '' @ [CHR 0x27] @ py_str dt @ [CHR 0x27] @ '': ''
                 @ show_nat (length (filter (type_pred dt) c)) @ '' remaining.'']
           else []))"
  by (cases "truthy dt") (simp_all add: filter_by_type_def type_pred_truthy type_pred_falsy Let_def)

lemma filter_by_floor_eq:
  "filter_by_floor fl (c, l) =
     (filter (floor_pred fl) c,
      l @ (case fl of
             Some n \<Rightarrow> [''Filtered by floor '' @ [CHR 0x27] @ show_int n @ [CHR 0x27] @ '': ''
                        @ show_nat (length (filter (floor_pred fl) c)) @ '' remaining.'']
           | None \<Rightarrow> []))"
  by (cases fl) (simp_all add: filter_by_floor_def floor_pred_Some floor_pred_None Let_def)

lemma filter_by_proximity_Inr:
  assumes "filter_by_proximity px sp (c, l) = Inr (c', l')"
  shows "c' = filter (proximity_pred px sp) c
       \<and> l' = l @ (if truthy px then [proximity_entry px sp (length c')] else [])"
proof (cases "truthy px")
  case False
  then have "\<not> proximity_applies px sp"
    by (auto simp: proximity_applies_def dest: py_lower_marketing_truthy)
  with False assms show ?thesis
    by (simp add: filter_by_proximity_def proximity_pred_def)
next
  case True
  from assms True obtain lowered where low: "py_lower px = Inr lowered"
    by (auto simp: filter_by_proximity_def split: sum.splits)
  show ?thesis
  proof (cases "proximity_applies px sp")
    case False
    with assms True low show ?thesis
      by (auto simp: filter_by_proximity_def proximity_pred_skip proximity_applies_def
            proximity_entry_def Let_def split: if_splits sum.splits)
  next
    case ap: True
    then have pa: "py_lower px = Inr ''marketing team''" "sp \<noteq> []"
      "find_marketing_zone_areas sp \<noteq> []"
      by (simp_all add: proximity_applies_def)
    from assms True pa
    have j: "py_join '', '' (find_marketing_zone_areas sp)
               = Inr (join_strs '', '' (map py_str (find_marketing_zone_areas sp)))"
      by (auto simp: filter_by_proximity_def py_join_def Let_def split: if_splits sum.splits)
    from assms True pa j show ?thesis
      by (auto simp: filter_by_proximity_def proximity_pred_applies [OF ap]
            proximity_entry_def Let_def)
  qed
qed

lemma filter_by_proximity_typed:
  assumes "proximity_typed px sp"
  shows "\<exists>c' l'. filter_by_proximity px sp (c, l) = Inr (c', l')"
proof (cases px)
  case (PStr s)
  with assms show ?thesis
    by (auto simp: filter_by_proximity_def proximity_typed_def py_join_def Let_def)
qed (use assms in \<open>simp_all add: filter_by_proximity_def proximity_typed_def\<close>)

lemma filter_desks_steps:
  "filter_desks dt fl px sp dk =
     filter_by_proximity px sp
       (filter_by_floor fl (filter_by_type dt (dict_get dk ''desks'' [], [start_entry dk])))"
  unfolding filter_desks_def Let_def start_entry_def ..

lemma filter_desks_Inr:
  assumes "filter_desks dt fl px sp dk = Inr (c, l)"
  shows "c = filter (proximity_pred px sp)
               (filter (floor_pred fl) (filter (type_pred dt) (dict_get dk ''desks'' [])))"
    and "l = [start_entry dk]
             @ (if truthy dt
                then [''Filtered by type '' @ [CHR 0x27] @ py_str dt @ [CHR 0x27] @ '': ''
                      @ show_nat (length (filter (type_pred dt) (dict_get dk ''desks'' [])))
                      @ '' remaining.'']
                else [])
             @ (case fl of
                  Some n \<Rightarrow>
                    [''Filtered by floor '' @ [CHR 0x27] @ show_int n @ [CHR 0x27] @ '': ''
                     @ show_nat (length (filter (floor_pred fl)
                                           (filter (type_pred dt) (dict_get dk ''desks'' []))))
                     @ '' remaining.'']
                | None \<Rightarrow> [])
             @ (if truthy px then [proximity_entry px sp (length c)] else [])"
proof -
  let ?d = "dict_get dk ''desks'' []"
  obtain c2 l2 where s2: "filter_by_floor fl (filter_by_type dt (?d, [start_entry dk])) = (c2, l2)"
    by (cases "filter_by_floor fl (filter_by_type dt (?d, [start_entry dk]))")
  from assms have "filter_by_proximity px sp (c2, l2) = Inr (c, l)"
    by (simp only: filter_desks_steps s2)
  from filter_by_proximity_Inr [OF this]
  have r: "c = filter (proximity_pred px sp) c2"
    "l = l2 @ (if truthy px then [proximity_entry px sp (length c)] else [])"
    by simp_all
  from s2 have c2: "c2 = filter (floor_pred fl) (filter (type_pred dt) ?d)"
    and l2: "l2 = ([start_entry dk]
            @ (if truthy dt
                then [''Filtered by type '' @ [CHR 0x27] @ py_str dt @ [CHR 0x27] @ '': ''
                      @ show_nat (length (filter (type_pred dt) ?d)) @ '' remaining.'']
                else []))
            @ (case fl of
                  Some n \<Rightarrow>
                    [''Filtered by floor '' @ [CHR 0x27] @ show_int n @ [CHR 0x27] @ '': ''
                     @ show_nat (length (filter (floor_pred fl) (filter (type_pred dt) ?d)))
                     @ '' remaining.'']
                | None \<Rightarrow> [])"
    by (simp_all add: filter_by_type_eq filter_by_floor_eq)
  from r c2 show "c = filter (proximity_pred px sp) (filter (floor_pred fl) (filter (type_pred dt) ?d))"
    by simp
  from r(2) l2 show "l = [start_entry dk]
             @ (if truthy dt
                then [''Filtered by type '' @ [CHR 0x27] @ py_str dt @ [CHR 0x27] @ '': ''
                      @ show_nat (length (filter (type_pred dt) (dict_get dk ''desks'' [])))
                      @ '' remaining.'']
                else [])
             @ (case fl of
                  Some n \<Rightarrow>
                    [''Filtered by floor '' @ [CHR 0x27] @ show_int n @ [CHR 0x27] @ '': ''
                     @ show_nat (length (filter (floor_pred fl)
                                           (filter (type_pred dt) (dict_get dk ''desks'' []))))
                     @ '' remaining.'']
                | None \<Rightarrow> [])
             @ (if truthy px then [proximity_entry px sp (length c)] else [])"
    by simp
qed

lemma filter_desks_typed:
  assumes "proximity_typed px sp"
  shows "\<exists>c l. filter_desks dt fl px sp dk = Inr (c, l)"
proof -
  obtain c2 l2 where
    "filter_by_floor fl (filter_by_type dt (dict_get dk ''desks'' [], [start_entry dk])) = (c2, l2)"
    by (cases "filter_by_floor fl (filter_by_type dt (dict_get dk ''desks'' [], [start_entry dk]))")
  with filter_by_proximity_typed [OF assms, of c2 l2] show ?thesis
    by (simp only: filter_desks_steps)
qed

lemma adds_constraint_preds:
  assumes "adds_constraint (dt, fl, px) (dt', fl', px')"
    and "type_pred dt' d" "floor_pred fl' d" "proximity_pred px' sp d"
  shows "type_pred dt d \<and> floor_pred fl d \<and> proximity_pred px sp d"
proof -
  from assms(1) have t: "\<not> truthy dt \<or> dt' = dt" and f: "fl = None \<or> fl' = fl"
    and p: "\<not> truthy px \<or> px' = px"
    by (simp_all add: adds_constraint_def)
  from t assms(2) have "type_pred dt d"
    by (auto simp: type_pred_def)
  moreover from f assms(3) have "floor_pred fl d"
    by (auto simp: floor_pred_def)
  moreover from p assms(4) have "proximity_pred px sp d"
    by (auto simp: proximity_pred_def proximity_applies_def dest: py_lower_marketing_truthy)
  ultimately show ?thesis by simp
qed

lemma three_filters:
  "filter P3 (filter P2 (filter P1 xs)) = filter (\<lambda>d. P1 d \<and> P2 d \<and> P3 d) xs"
  by (induction xs) auto

lemma filter_stronger:
  assumes "\<And>x. Q x \<Longrightarrow> P x"
  shows "filter Q xs = filter Q (filter P xs)"
  using assms by (induction xs) auto

text \<open>
  Two runs on the example desks.
\<close>

lemma ex_run_loose:
  "filter_desks (PStr ''standing'') None PNone ex_spaces ex_desks
     = Inr ([ex_d301, ex_d201, ex_d303],
            [''Starting with 4 total desks.'', ''Filtered by type 'standing': 3 remaining.''])"
  by code_simp

lemma ex_run_tight:
  "filter_desks (PStr ''standing'') (Some 3) (PStr ''Marketing Team'') ex_spaces ex_desks
     = Inr ([ex_d301, ex_d303],
            [''Starting with 4 total desks.'', ''Filtered by type 'standing': 3 remaining.'',
             ''Filtered by floor '3': 2 remaining.'',
             ''Filtered by proximity to 'Marketing Team' (Areas: A-31, A-32): 2 remaining.''])"
  by code_simp

subsection \<open>Narrowing only, in input order\<close>

text \<open>
  Claim C4. Whenever the pipeline returns, its candidates are a subsequence of the
  input desks; they are the result of the proximity filter applied to the result of the
  floor filter applied to the result of the type filter; and for a specification that
  adds constraints, the candidates are a subsequence of these candidates and so at most
  as many. On typed input the pipeline always returns.
\<close>

theorem filter_pipeline_narrowing:
  "(\<forall>c l. filter_desks dt fl px sp dk = Inr (c, l) \<longrightarrow>
        subseq c (dict_get dk ''desks'' [])
      \<and> c = filter (proximity_pred px sp)
              (filter (floor_pred fl) (filter (type_pred dt) (dict_get dk ''desks'' [])))
      \<and> (\<forall>dt' fl' px' c' l'.
            adds_constraint (dt, fl, px) (dt', fl', px')
            \<and> filter_desks dt' fl' px' sp dk = Inr (c', l')
            \<longrightarrow> subseq c' c \<and> length c' \<le> length c))
   \<and> (proximity_typed px sp \<longrightarrow> (\<exists>c l. filter_desks dt fl px sp dk = Inr (c, l)))"
proof (intro conjI allI impI)
  fix c l
  assume r: "filter_desks dt fl px sp dk = Inr (c, l)"
  let ?d = "dict_get dk ''desks'' []"
  from filter_desks_Inr(1) [OF r]
  show c: "c = filter (proximity_pred px sp) (filter (floor_pred fl) (filter (type_pred dt) ?d))" .
  then have c3: "c = filter (\<lambda>d. type_pred dt d \<and> floor_pred fl d \<and> proximity_pred px sp d) ?d"
    by (simp only: three_filters)
  then show "subseq c ?d"
    by simp
  fix dt' fl' px' c' l'
  assume a: "adds_constraint (dt, fl, px) (dt', fl', px')
             \<and> filter_desks dt' fl' px' sp dk = Inr (c', l')"
  then have "c' = filter (proximity_pred px' sp)
                    (filter (floor_pred fl') (filter (type_pred dt') ?d))"
    using filter_desks_Inr(1) by blast
  then have "c' = filter (\<lambda>d. type_pred dt' d \<and> floor_pred fl' d \<and> proximity_pred px' sp d) ?d"
    by (simp only: three_filters)
  also have "\<dots> = filter (\<lambda>d. type_pred dt' d \<and> floor_pred fl' d \<and> proximity_pred px' sp d) c"
    unfolding c3
    by (rule filter_stronger) (use a adds_constraint_preds in blast)
  finally have c': "c' = filter (\<lambda>d. type_pred dt' d \<and> floor_pred fl' d \<and> proximity_pred px' sp d) c" .
  show "subseq c' c"
    by (subst c') simp
  show "length c' \<le> length c"
    by (subst c') simp
next
  assume "proximity_typed px sp"
  then show "\<exists>c l. filter_desks dt fl px sp dk = Inr (c, l)"
    by (rule filter_desks_typed)
qed

theorem filter_pipeline_narrowing_witness:
  "filter_desks (PStr ''standing'') None PNone ex_spaces ex_desks
     = Inr ([ex_d301, ex_d201, ex_d303],
            [''Starting with 4 total desks.'', ''Filtered by type 'standing': 3 remaining.''])
   \<and> adds_constraint (PStr ''standing'', None, PNone)
        (PStr ''standing'', Some 3, PStr ''Marketing Team'')
   \<and> filter_desks (PStr ''standing'') (Some 3) (PStr ''Marketing Team'') ex_spaces ex_desks
     = Inr ([ex_d301, ex_d303],
            [''Starting with 4 total desks.'', ''Filtered by type 'standing': 3 remaining.'',
             ''Filtered by floor '3': 2 remaining.'',
             ''Filtered by proximity to 'Marketing Team' (Areas: A-31, A-32): 2 remaining.''])
   \<and> subseq [ex_d301, ex_d201, ex_d303] (dict_get ex_desks ''desks'' [])
   \<and> subseq [ex_d301, ex_d303] [ex_d301, ex_d201, ex_d303]
   \<and> length [ex_d301, ex_d303] \<le> length [ex_d301, ex_d201, ex_d303]
   \<and> proximity_typed (PStr ''Marketing Team'') ex_spaces"
proof -
  note T = filter_pipeline_narrowing [of "PStr ''standing''" None PNone ex_spaces ex_desks]
  have a: "adds_constraint (PStr ''standing'', None, PNone)
             (PStr ''standing'', Some 3, PStr ''Marketing Team'')"
    by (simp add: adds_constraint_def)
  have t: "proximity_typed (PStr ''Marketing Team'') ex_spaces"
    by code_simp
  note U = T [THEN conjunct1, rule_format, OF ex_run_loose]
  note V = U [THEN conjunct2, THEN conjunct2, rule_format, OF conjI [OF a ex_run_tight]]
  from U have "subseq [ex_d301, ex_d201, ex_d303] (dict_get ex_desks ''desks'' [])"
    by (rule conjunct1)
  with V a t ex_run_loose ex_run_tight show ?thesis
    by (intro conjI) (rule conjunct1, assumption | rule conjunct2, assumption | assumption)+
qed

subsection \<open>A missing Marketing Zone\<close>

text \<open>
  Claim C7. When no space has both the type \<^verbatim>\<open>zone\<close> and the name "Marketing Zone", the
  areas found are empty (the function is total, nothing is raised), and the proximity
  step for the target "marketing team" returns the candidates unchanged and appends one
  warning to the trace.
\<close>

theorem missing_zone_skips_proximity:
  assumes "\<forall>space \<in> set (dict_get spaces_data ''spaces'' []).
             \<not> (py_get space ''type'' = PStr ''zone'' \<and> py_get space ''name'' = PStr ''Marketing Zone'')"
  shows "find_marketing_zone_areas spaces_data = []
       \<and> (py_lower req_proximity = Inr ''marketing team'' \<longrightarrow>
            filter_by_proximity req_proximity spaces_data (candidate_desks, filter_log)
              = Inr (candidate_desks,
                     filter_log @
                       [if spaces_data \<noteq> []
                        then ''Warning: Could not find areas associated with 'Marketing Zone'. Skipping proximity filter.''
                        else ''Warning: Spaces data not loaded, cannot filter by proximity.'']))"
proof -
  from assms have "\<forall>space \<in> set (dict_get spaces_data ''spaces'' []). \<not> is_marketing_zone space"
    by (auto simp: is_marketing_zone_def)
  then have none: "find_marketing_zone_areas spaces_data = []"
    by (rule no_zone_no_areas)
  show ?thesis
    using none by (auto simp: filter_by_proximity_def py_lower_marketing_truthy)
qed

lemma ex_no_zone:
  "\<forall>space \<in> set (dict_get ex_spaces_no_zone ''spaces'' []).
     \<not> (py_get space ''type'' = PStr ''zone'' \<and> py_get space ''name'' = PStr ''Marketing Zone'')"
  by (simp add: ex_spaces_no_zone_def dict_get_def py_get_def)

lemma ex_lower: "py_lower (PStr ''Marketing Team'') = Inr ''marketing team''"
  by code_simp

theorem missing_zone_skips_proximity_witness:
  "list_all (\<lambda>space. \<not> (py_get space ''type'' = PStr ''zone''
                            \<and> py_get space ''name'' = PStr ''Marketing Zone''))
     (dict_get ex_spaces_no_zone ''spaces'' [])
   \<and> py_lower (PStr ''Marketing Team'') = Inr ''marketing team''
   \<and> find_marketing_zone_areas ex_spaces_no_zone = []
   \<and> filter_by_proximity (PStr ''Marketing Team'') ex_spaces_no_zone
        ([ex_d301, ex_d201], [''Starting with 2 total desks.''])
       = Inr ([ex_d301, ex_d201],
              [''Starting with 2 total desks.'',
               ''Warning: Could not find areas associated with 'Marketing Zone'. Skipping proximity filter.''])"
proof -
  have ne: "ex_spaces_no_zone \<noteq> []"
    by (simp add: ex_spaces_no_zone_def)
  from ex_no_zone
  have "list_all (\<lambda>space. \<not> (py_get space ''type'' = PStr ''zone''
                                 \<and> py_get space ''name'' = PStr ''Marketing Zone''))
          (dict_get ex_spaces_no_zone ''spaces'' [])"
    by (simp only: list_all_iff)
  then show ?thesis
    using ex_lower ne
      missing_zone_skips_proximity [OF ex_no_zone, of "PStr ''Marketing Team''"
        "[ex_d301, ex_d201]" "[''Starting with 2 total desks.'']"]
    by simp
qed

subsection \<open>The entries of the trace\<close>

text \<open>
  Claim C9, as the specification states it, fails: a step whose criterion is absent
  appends nothing. With no criterion at all the trace is the starting entry alone.
\<close>

theorem trace_one_entry_counterexample:
  "filter_desks PNone None PNone ex_spaces ex_desks
     = Inr ([ex_d301, ex_d302, ex_d201, ex_d303], [''Starting with 4 total desks.''])"
  by code_simp

text \<open>
  Claim C9, amended. Whenever the pipeline returns, the trace is the starting entry,
  which records the number of desks, followed by one entry for each step whose criterion
  is present (a truthy desk type, a floor, a truthy proximity target) and none for a step
  whose criterion is absent. The type and floor entries state the filter and the number
  of candidates after the step; the proximity entry states the filter and the final
  number of candidates when the filter applies, and is a warning or a note otherwise.
\<close>

theorem filter_trace_entries:
  assumes "filter_desks dt fl px sp dk = Inr (c, l)"
  shows "l = [start_entry dk]
             @ (if truthy dt
                then [''Filtered by type '' @ [CHR 0x27] @ py_str dt @ [CHR 0x27] @ '': ''
                      @ show_nat (length (filter (type_pred dt) (dict_get dk ''desks'' [])))
                      @ '' remaining.'']
                else [])
             @ (case fl of
                  Some n \<Rightarrow>
                    [''Filtered by floor '' @ [CHR 0x27] @ show_int n @ [CHR 0x27] @ '': ''
                     @ show_nat (length (filter (floor_pred fl)
                                           (filter (type_pred dt) (dict_get dk ''desks'' []))))
                     @ '' remaining.'']
                | None \<Rightarrow> [])
             @ (if truthy px then [proximity_entry px sp (length c)] else [])
       \<and> l ! 0 = ''Starting with '' @ show_nat (length (dict_get dk ''desks'' []))
                  @ '' total desks.''
       \<and> length l = 1 + (if truthy dt then 1 else 0) + (if fl = None then 0 else 1)
                      + (if truthy px then 1 else 0)"
proof -
  note l = filter_desks_Inr(2) [OF assms]
  have "l ! 0 = start_entry dk"
    by (subst l) simp
  moreover have "length l = 1 + (if truthy dt then 1 else 0) + (if fl = None then 0 else 1)
                      + (if truthy px then 1 else 0)"
    by (subst l) (simp split: option.splits)
  ultimately show ?thesis
    using l by (simp add: start_entry_def)
qed

theorem filter_trace_entries_witness:
  "filter_desks (PStr ''standing'') (Some 3) (PStr ''Marketing Team'') ex_spaces ex_desks
     = Inr ([ex_d301, ex_d303],
            [''Starting with 4 total desks.'', ''Filtered by type 'standing': 3 remaining.'',
             ''Filtered by floor '3': 2 remaining.'',
             ''Filtered by proximity to 'Marketing Team' (Areas: A-31, A-32): 2 remaining.''])
   \<and> length [''Starting with 4 total desks.'', ''Filtered by type 'standing': 3 remaining.'',
             ''Filtered by floor '3': 2 remaining.'',
             ''Filtered by proximity to 'Marketing Team' (Areas: A-31, A-32): 2 remaining.'']
       = 1 + (if truthy (PStr ''standing'') then 1 else 0) + (if Some (3::int) = None then 0 else 1)
           + (if truthy (PStr ''Marketing Team'') then 1 else 0)"
  using ex_run_tight filter_trace_entries [OF ex_run_tight, THEN conjunct2, THEN conjunct2]
  by simp

end
